theory Spec2Isabelle
  imports Main "HOL-Library.Word" "HOL-Library.Sublist"
begin

section \<open>Data model\<close>

text \<open>
  A manifest document is a Go \<^verbatim>\<open>map[string]interface{}\<close>. The values held in the
  interface are the ones the YAML decoder produces; the mapping engine only ever
  compares them with strings, so nested values are kept as plain (immutable) data, a
  nested mapping as its list of entries in key order. Floating point scalars are left
  out.
\<close>

datatype yvalue =
    YNull
  | YBool bool
  | YInt int
  | YString string
  | YSeq "yvalue list"
  | YMap "(string \<times> yvalue) list"

type_synonym document = "string \<Rightarrow> yvalue option"

text \<open>
  Go maps and slices are references. The store holds the map objects and the backing
  arrays of the \<^verbatim>\<open>[]map[string]interface{}\<close> slices; a slice header is a pointer to a
  backing array (always at its first element here) and a length. The capacity is the
  length of the backing array.
\<close>

type_synonym addr = nat

record store =
  maps :: "addr \<Rightarrow> document"
  arrays :: "addr \<Rightarrow> addr list"

record slice =
  ptr :: addr
  len :: nat

text \<open>
  Modelled from the spec: the rule types of package \<^verbatim>\<open>mapping\<close> (\<^verbatim>\<open>mapping.Metadata\<close>,
  its \<^verbatim>\<open>Mappings\<close>, and the API identifier with \<^verbatim>\<open>Group\<close>, \<^verbatim>\<open>Version\<close>, \<^verbatim>\<open>Kind\<close>) are
  declared in that package, whose source is missing. The spec gives an API identifier
  as the triple group, version, kind, and a rule as deprecatedAPI, newAPI,
  deprecatedInVersion, removedInVersion, all strings.
\<close>

record APIIdentifier =
  Group :: string
  Version :: string
  Kind :: string

record Mapping =
  DeprecatedAPI :: APIIdentifier
  NewAPI :: APIIdentifier
  DeprecatedInVersion :: string
  RemovedInVersion :: string

datatype error =
    LoadMapfileFailed string
  | ClusterUnreachable
  | ServerVersionInvalid
  | APIVersionInvalid APIIdentifier
  | SliceBoundsPanic
  | IndexPanic

definition ApiVersionFieldName :: string where
  "ApiVersionFieldName = ''apiVersion''"

definition KindFieldName :: string where
  "KindFieldName = ''kind''"

section \<open>Semantic versions\<close>

text \<open>
  Modelled from the spec: the version gate compares semantic-version strings (major,
  then minor, then patch, a pre-release lower than the release) through the library
  functions \<^verbatim>\<open>semver.IsValid\<close> and \<^verbatim>\<open>semver.Compare\<close>, which are not part of the
  repository. The model follows that library: a version is \<^verbatim>\<open>vMAJOR[.MINOR[.PATCH[-PRE][+BUILD]]]\<close>,
  numbers have no leading zero, an invalid version is below every valid one.
\<close>

record parsed =
  major :: string
  minor :: string
  patch :: string
  prerelease :: string

definition isDigit :: "char \<Rightarrow> bool" where
  "isDigit c = (c \<in> set ''0123456789'')"

definition isIdentChar :: "char \<Rightarrow> bool" where
  "isIdentChar c =
     (c \<in> set ''ABCDEFGHIJKLMNOPQRSTUVWXYZabcdefghijklmnopqrstuvwxyz0123456789-'')"

definition parseInt :: "string \<Rightarrow> (string \<times> string) option" where
  "parseInt v =
     (case v of
        [] \<Rightarrow> None
      | c # _ \<Rightarrow>
          if \<not> isDigit c then None
          else if c = CHR ''0'' \<and> length (takeWhile isDigit v) \<noteq> 1 then None
          else Some (takeWhile isDigit v, dropWhile isDigit v))"

fun identifiers :: "string \<Rightarrow> string list" where
  "identifiers [] = [[]]"
| "identifiers (c # cs) =
     (if c = CHR ''.'' then [] # identifiers cs
      else (case identifiers cs of [] \<Rightarrow> [[c]] | i # is \<Rightarrow> (c # i) # is))"

definition isNum :: "string \<Rightarrow> bool" where
  "isNum v = (\<forall>c \<in> set v. isDigit c)"

definition isBadNum :: "string \<Rightarrow> bool" where
  "isBadNum v = (isNum v \<and> length v > 1 \<and> hd v = CHR ''0'')"

definition parsePrerelease :: "string \<Rightarrow> (string \<times> string) option" where
  "parsePrerelease v =
     (case v of
        [] \<Rightarrow> None
      | c # w \<Rightarrow>
          if c \<noteq> CHR ''-'' then None
          else
            let body = takeWhile (\<lambda>x. x \<noteq> CHR ''+'') w;
                rest = dropWhile (\<lambda>x. x \<noteq> CHR ''+'') w
            in if (\<forall>x \<in> set body. isIdentChar x \<or> x = CHR ''.'')
                  \<and> (\<forall>i \<in> set (identifiers body). i \<noteq> [] \<and> \<not> isBadNum i)
               then Some (c # body, rest) else None)"

definition parseBuild :: "string \<Rightarrow> (string \<times> string) option" where
  "parseBuild v =
     (case v of
        [] \<Rightarrow> None
      | c # w \<Rightarrow>
          if c \<noteq> CHR ''+'' then None
          else if (\<forall>x \<in> set w. isIdentChar x \<or> x = CHR ''.'')
                  \<and> (\<forall>i \<in> set (identifiers w). i \<noteq> [])
               then Some (v, []) else None)"

definition parse :: "string \<Rightarrow> parsed option" where
  "parse v =
     (case v of
        [] \<Rightarrow> None
      | c # v1 \<Rightarrow>
          if c \<noteq> CHR ''v'' then None
          else (case parseInt v1 of
            None \<Rightarrow> None
          | Some (ma, v2) \<Rightarrow>
              if v2 = [] then Some \<lparr>major = ma, minor = ''0'', patch = ''0'', prerelease = []\<rparr>
              else if hd v2 \<noteq> CHR ''.'' then None
              else (case parseInt (tl v2) of
                None \<Rightarrow> None
              | Some (mi, v3) \<Rightarrow>
                  if v3 = [] then Some \<lparr>major = ma, minor = mi, patch = ''0'', prerelease = []\<rparr>
                  else if hd v3 \<noteq> CHR ''.'' then None
                  else (case parseInt (tl v3) of
                    None \<Rightarrow> None
                  | Some (pa, v4) \<Rightarrow>
                      (case (if v4 \<noteq> [] \<and> hd v4 = CHR ''-'' then parsePrerelease v4
                             else Some ([], v4)) of
                         None \<Rightarrow> None
                       | Some (pre, v5) \<Rightarrow>
                           (case (if v5 \<noteq> [] \<and> hd v5 = CHR ''+'' then parseBuild v5
                                  else Some ([], v5)) of
                              None \<Rightarrow> None
                            | Some (build, v6) \<Rightarrow>
                                if v6 \<noteq> [] then None
                                else Some \<lparr>major = ma, minor = mi, patch = pa,
                                           prerelease = pre\<rparr>))))))"

definition semver_IsValid :: "string \<Rightarrow> bool" where
  "semver_IsValid v = (parse v \<noteq> None)"

text \<open>Go compares strings byte by byte.\<close>

fun string_less :: "string \<Rightarrow> string \<Rightarrow> bool" where
  "string_less [] [] = False"
| "string_less [] (y # ys) = True"
| "string_less (x # xs) [] = False"
| "string_less (x # xs) (y # ys) =
     (if (of_char x :: nat) < of_char y then True
      else if (of_char y :: nat) < of_char x then False
      else string_less xs ys)"

definition compareInt :: "string \<Rightarrow> string \<Rightarrow> int" where
  "compareInt x y =
     (if x = y then 0
      else if length x < length y then -1
      else if length x > length y then 1
      else if string_less x y then -1 else 1)"

fun compareIdents :: "string list \<Rightarrow> string list \<Rightarrow> int" where
  "compareIdents [] ys = -1"
| "compareIdents (dx # xs) [] = 1"
| "compareIdents (dx # xs) (dy # ys) =
     (if dx \<noteq> dy then
        (if isNum dx \<noteq> isNum dy then (if isNum dx then -1 else 1)
         else if isNum dx \<and> length dx < length dy then -1
         else if isNum dx \<and> length dx > length dy then 1
         else if string_less dx dy then -1 else 1)
      else compareIdents xs ys)"

definition comparePrerelease :: "string \<Rightarrow> string \<Rightarrow> int" where
  "comparePrerelease x y =
     (if x = y then 0
      else if x = [] then 1
      else if y = [] then -1
      else compareIdents (identifiers (tl x)) (identifiers (tl y)))"

definition semver_Compare :: "string \<Rightarrow> string \<Rightarrow> int" where
  "semver_Compare v w =
     (case (parse v, parse w) of
        (None, None) \<Rightarrow> 0
      | (None, Some pw) \<Rightarrow> -1
      | (Some pv, None) \<Rightarrow> 1
      | (Some pv, Some pw) \<Rightarrow>
          if compareInt (major pv) (major pw) \<noteq> 0 then compareInt (major pv) (major pw)
          else if compareInt (minor pv) (minor pw) \<noteq> 0 then compareInt (minor pv) (minor pw)
          else if compareInt (patch pv) (patch pw) \<noteq> 0 then compareInt (patch pv) (patch pw)
          else comparePrerelease (prerelease pv) (prerelease pw))"

section \<open>The mapping engine\<close>

text \<open>
  \<^verbatim>\<open>fmt.Sprintf("%v/%v", api.Group, api.Version)\<close>: the API string the engine composes,
  for the deprecated API (matching) and for the supported API (rewriting).
\<close>

definition apiVersionOf :: "APIIdentifier \<Rightarrow> string" where
  "apiVersionOf api = Group api @ ''/'' @ Version api"

text \<open>
  The test \<^verbatim>\<open>manifest[ApiVersionFieldName] == apiVersion && manifest[KindFieldName] == kind\<close>:
  an interface value equals a string only when it holds a string of that value; a
  missing key reads as nil.
\<close>

definition matches :: "document \<Rightarrow> string \<Rightarrow> string \<Rightarrow> bool" where
  "matches manifest apiVersion kind =
     (manifest ApiVersionFieldName = Some (YString apiVersion)
      \<and> manifest KindFieldName = Some (YString kind))"

text \<open>
  \<^verbatim>\<open>modifiedManifest = append(modifiedManifest[:index], modifiedManifest[index+1:]...)\<close>.
  Slicing \<^verbatim>\<open>[:index]\<close> is legal up to the capacity, slicing \<^verbatim>\<open>[index+1:]\<close> only up to the
  length; outside, Go panics. The result fits the capacity, so the elements after
  \<^verbatim>\<open>index\<close> are moved down by one inside the same backing array, whose last used cell
  keeps its old content, and the length shrinks by one.
\<close>

definition removeAt :: "store \<Rightarrow> slice \<Rightarrow> nat \<Rightarrow> error + (store \<times> slice)" where
  "removeAt st s index =
     (let a = arrays st (ptr s) in
      if index > length a then Inl SliceBoundsPanic
      else if index + 1 > len s then Inl SliceBoundsPanic
      else Inr (st\<lparr>arrays := (arrays st)(ptr s :=
                     take index a @ drop (index + 1) (take (len s) a) @ drop (len s - 1) a)\<rparr>,
                s\<lparr>len := len s - 1\<rparr>))"

text \<open>
  The removal loop \<^verbatim>\<open>for index, manifest := range modifiedManifest\<close>. The range
  expression is evaluated once: \<open>n\<close> is the length at loop entry, and each round reads
  cell \<open>index\<close> of the backing array as it is at that moment, while the body assigns a
  new header to \<^verbatim>\<open>modifiedManifest\<close>. A slice never has a length beyond its capacity, so
  the read stays inside the backing array; the model answers \<open>IndexPanic\<close> where it
  would not.
\<close>

function removeLoop ::
  "string \<Rightarrow> string \<Rightarrow> nat \<Rightarrow> nat \<Rightarrow> store \<Rightarrow> slice \<Rightarrow> error + (store \<times> slice)" where
  "removeLoop apiVersion kind n index st s =
     (if index < n then
        (if index \<ge> length (arrays st (ptr s)) then Inl IndexPanic
         else if matches (maps st (arrays st (ptr s) ! index)) apiVersion kind then
           (case removeAt st s index of
              Inl e \<Rightarrow> Inl e
            | Inr (st', s') \<Rightarrow> removeLoop apiVersion kind n (index + 1) st' s')
         else removeLoop apiVersion kind n (index + 1) st s)
      else Inr (st, s))"
  by pat_completeness auto
termination
  by (relation "measure (\<lambda>(apiVersion, kind, n, index, st, s). n - index)") auto

text \<open>
  The rewrite loop \<^verbatim>\<open>for _, manifest := range modifiedManifest\<close>: \<^verbatim>\<open>manifest\<close> is the map
  reference stored in the slice, so the assignment to its \<^verbatim>\<open>apiVersion\<close> key changes the
  map object in the store.
\<close>

fun rewriteLoop ::
  "string \<Rightarrow> string \<Rightarrow> string \<Rightarrow> addr list \<Rightarrow> (addr \<Rightarrow> document) \<Rightarrow> (addr \<Rightarrow> document)" where
  "rewriteLoop apiVersion kind newApiVersion [] h = h"
| "rewriteLoop apiVersion kind newApiVersion (manifest # rest) h =
     (if matches (h manifest) apiVersion kind
      then rewriteLoop apiVersion kind newApiVersion rest
             (h(manifest := (h manifest)(ApiVersionFieldName \<mapsto> YString newApiVersion)))
      else rewriteLoop apiVersion kind newApiVersion rest h)"

definition threshold :: "Mapping \<Rightarrow> string" where
  "threshold m =
     (if DeprecatedInVersion m \<noteq> [] then DeprecatedInVersion m else RemovedInVersion m)"

text \<open>The body of the loop over the rules, below the version gate.\<close>

definition mapDocuments :: "Mapping \<Rightarrow> store \<Rightarrow> slice \<Rightarrow> error + (store \<times> slice)" where
  "mapDocuments m st modifiedManifest =
     (let deprecatedAPI = DeprecatedAPI m;
          supportedAPI = NewAPI m;
          apiVersion = apiVersionOf deprecatedAPI
      in if Kind supportedAPI = [] \<or> Group supportedAPI = [] then
           removeLoop apiVersion (Kind deprecatedAPI) (len modifiedManifest) 0 st modifiedManifest
         else
           Inr (st\<lparr>maps := rewriteLoop apiVersion (Kind deprecatedAPI) (apiVersionOf supportedAPI)
                            (take (len modifiedManifest) (arrays st (ptr modifiedManifest)))
                            (maps st)\<rparr>,
                modifiedManifest))"

text \<open>One round of the loop over the rules: validity of the threshold, the gate, the body.\<close>

definition applyMapping ::
  "string \<Rightarrow> Mapping \<Rightarrow> store \<Rightarrow> slice \<Rightarrow> error + (store \<times> slice)" where
  "applyMapping kubeVersionStr m st modifiedManifest =
     (let apiVersionStr = threshold m in
      if \<not> semver_IsValid apiVersionStr then Inl (APIVersionInvalid (DeprecatedAPI m))
      else if semver_Compare apiVersionStr kubeVersionStr > 0 then Inr (st, modifiedManifest)
      else mapDocuments m st modifiedManifest)"

fun applyMappings ::
  "string \<Rightarrow> Mapping list \<Rightarrow> store \<Rightarrow> slice \<Rightarrow> error + (store \<times> slice)" where
  "applyMappings kubeVersionStr [] st modifiedManifest = Inr (st, modifiedManifest)"
| "applyMappings kubeVersionStr (m # ms) st modifiedManifest =
     (case applyMapping kubeVersionStr m st modifiedManifest of
        Inl e \<Rightarrow> Inl e
      | Inr (st', modifiedManifest') \<Rightarrow> applyMappings kubeVersionStr ms st' modifiedManifest')"

text \<open>
  \<^verbatim>\<open>ReplaceManifestUnSupportedAPIs\<close>. Loading the mapping file and asking the cluster for
  its version are done by collaborators; their outcomes are arguments. The result slice
  starts as a copy of the header \<^verbatim>\<open>origManifest\<close>: same backing array, same maps.
\<close>

definition ReplaceManifestUnSupportedAPIs ::
  "string + Mapping list \<Rightarrow> error + string \<Rightarrow> store \<Rightarrow> slice \<Rightarrow> error + (store \<times> slice)" where
  "ReplaceManifestUnSupportedAPIs loadMapfile serverVersion st origManifest =
     (case loadMapfile of
        Inl e \<Rightarrow> Inl (LoadMapfileFailed e)
      | Inr mappings \<Rightarrow>
          (case serverVersion of
             Inl e \<Rightarrow> Inl e
           | Inr kubeVersionStr \<Rightarrow>
               if \<not> semver_IsValid kubeVersionStr then Inl ServerVersionInvalid
               else applyMappings kubeVersionStr mappings st origManifest))"

section \<open>The change detector\<close>

text \<open>
  \<^verbatim>\<open>reflect.DeepEqual\<close> on two non-nil \<^verbatim>\<open>[]map[string]interface{}\<close> values: the lengths
  are equal, and either both headers point to the same first cell or the elements are
  pairwise deeply equal; two maps are deeply equal when they are the same object or
  hold the same keys with deeply equal values.
\<close>

definition DeepEqual :: "store \<Rightarrow> slice \<Rightarrow> slice \<Rightarrow> bool" where
  "DeepEqual st x y =
     (len x = len y
      \<and> (ptr x = ptr y
         \<or> list_all2 (\<lambda>a b. a = b \<or> maps st a = maps st b)
              (take (len x) (arrays st (ptr x))) (take (len y) (arrays st (ptr y)))))"

section \<open>The manifest codec\<close>

text \<open>
  The YAML decoder and encoder are library objects. A decoder is a state \<open>'d\<close> with its
  \<^verbatim>\<open>Decode\<close> step, which returns what it stored in \<^verbatim>\<open>value\<close> (nil when it stored nothing)
  and its error; nothing is assumed about what it answers after an error.
\<close>

datatype decode_error = EOF | YamlError string

type_synonym 'd Decoder = "'d \<Rightarrow> (document option \<times> decode_error option) \<times> 'd"

text \<open>
  The loop of \<^verbatim>\<open>decodeManifests\<close>; \<^verbatim>\<open>value\<close> is a fresh nil map in every round. The loop
  has no bound of its own, so not returning is the result \<open>None\<close>.
\<close>

partial_function (option) decodeLoop ::
  "'d Decoder \<Rightarrow> 'd \<Rightarrow> document list \<Rightarrow> (decode_error + document list) option" where
  "decodeLoop Decode decoder manifests =
     (case Decode decoder of
        ((value, err), decoder') \<Rightarrow>
          if err = Some EOF then Some (Inr manifests)
          else if value = None \<or> value = Some Map.empty then decodeLoop Decode decoder' manifests
          else (case err of
                  Some e \<Rightarrow> Some (Inl e)
                | None \<Rightarrow> decodeLoop Decode decoder' (manifests @ [the value])))"

definition decodeManifests ::
  "(string \<Rightarrow> 'd) \<Rightarrow> 'd Decoder \<Rightarrow> string \<Rightarrow> (decode_error + document list) option" where
  "decodeManifests NewDecoder Decode releaseManifestData =
     decodeLoop Decode (NewDecoder releaseManifestData) []"

text \<open>
  The decoder builds a new map object for every document, and \<^verbatim>\<open>append\<close> collects the
  references in one backing array: document \<open>i\<close> lives at address \<open>i\<close>, the array at
  address \<open>0\<close> of the arrays. Spare capacity is left out, the engine never reaches it.
\<close>

fun allocMaps :: "addr \<Rightarrow> document list \<Rightarrow> addr \<Rightarrow> document" where
  "allocMaps base [] = (\<lambda>_. Map.empty)"
| "allocMaps base (d # ds) = (allocMaps (Suc base) ds)(base := d)"

definition allocManifests :: "document list \<Rightarrow> store \<times> slice" where
  "allocManifests ds =
     (\<lparr>maps = allocMaps 0 ds, arrays = (\<lambda>_. [])(0 := [0..<length ds])\<rparr>,
      \<lparr>ptr = 0, len = length ds\<rparr>)"

text \<open>
  An encoder is a state \<open>'e\<close> with \<^verbatim>\<open>Encode\<close>, \<^verbatim>\<open>Close\<close> and the bytes written so far.
\<close>

record 'e Encoder =
  NewEncoder :: 'e
  Encode :: "'e \<Rightarrow> document \<Rightarrow> string option \<times> 'e"
  Close :: "'e \<Rightarrow> string option \<times> 'e"
  Bytes :: "'e \<Rightarrow> string"

fun encodeLoop :: "'e Encoder \<Rightarrow> 'e \<Rightarrow> document list \<Rightarrow> string + 'e" where
  "encodeLoop enc encoder [] = Inr encoder"
| "encodeLoop enc encoder (manifest # rest) =
     (case Encode enc encoder manifest of
        (Some err, _) \<Rightarrow> Inl err
      | (None, encoder') \<Rightarrow> encodeLoop enc encoder' rest)"

definition encodeManifests :: "'e Encoder \<Rightarrow> document list \<Rightarrow> string + string" where
  "encodeManifests enc manifests =
     (case encodeLoop enc (NewEncoder enc) manifests of
        Inl err \<Rightarrow> Inl err
      | Inr encoder \<Rightarrow>
          (case Close enc encoder of
             (Some err, _) \<Rightarrow> Inl err
           | (None, encoder') \<Rightarrow> Inr (''---'' @ [CHR 0x0A] @ Bytes enc encoder')))"






section \<open>The release version transition\<close>

text \<open>
  Modelled from the spec: the release record and the storage belong to the Helm library,
  whose source is missing. A release version has a name, a version, a manifest, and its
  info with status, description and last deployment time; the store has an update and a
  create primitive, each of which may fail. \<^verbatim>\<open>Version\<close> is a Go \<^verbatim>\<open>int\<close>, 64 bits wide.
\<close>

datatype Status =
    StatusUnknown | StatusDeployed | StatusUninstalled | StatusSuperseded | StatusFailed
  | StatusUninstalling | StatusPendingInstall | StatusPendingUpgrade | StatusPendingRollback

record ReleaseInfo =
  Status :: Status
  Description :: string
  LastDeployed :: nat

record Release =
  Name :: string
  Namespace :: string
  Info :: ReleaseInfo
  Manifest :: string
  RelVersion :: "64 word"

datatype call = CallUpdate Release | CallCreate Release

record 's Storage =
  Update :: "'s \<Rightarrow> Release \<Rightarrow> string option \<times> 's"
  Create :: "'s \<Rightarrow> Release \<Rightarrow> string option \<times> 's"

text \<open>
  Release records are reached through pointers: \<open>releases\<close> is the heap of release
  objects (each with its info), \<open>driver\<close> the state of the storage, and \<open>calls\<close> the
  calls made to the storage so far, each with the record as it was when passed.
\<close>

record 's config =
  releases :: "addr \<Rightarrow> Release"
  driver :: 's
  calls :: "call list"

definition UpgradeDescription :: string where
  "UpgradeDescription = ''Kubernetes deprecated API upgrade - DO NOT rollback from this version''"

datatype update_error = UpdateFailed string | CreateFailed string

definition setStatus :: "Status \<Rightarrow> Release \<Rightarrow> Release" where
  "setStatus s r = r\<lparr>Info := (Info r)\<lparr>Status := s\<rparr>\<rparr>"

definition setDescription :: "string \<Rightarrow> Release \<Rightarrow> Release" where
  "setDescription d r = r\<lparr>Info := (Info r)\<lparr>Description := d\<rparr>\<rparr>"

definition setLastDeployed :: "nat \<Rightarrow> Release \<Rightarrow> Release" where
  "setLastDeployed t r = r\<lparr>Info := (Info r)\<lparr>LastDeployed := t\<rparr>\<rparr>"

definition assign :: "addr \<Rightarrow> (Release \<Rightarrow> Release) \<Rightarrow> 's config \<Rightarrow> 's config" where
  "assign p f cfg = cfg\<lparr>releases := (releases cfg)(p := f (releases cfg p))\<rparr>"

text \<open>
  \<^verbatim>\<open>updateRelease\<close>. \<^verbatim>\<open>origRelease\<close> is a pointer, and \<^verbatim>\<open>var newRelease = origRelease\<close>
  copies the pointer: every assignment through \<^verbatim>\<open>newRelease\<close> writes the object that
  \<^verbatim>\<open>origRelease\<close> points to. Log lines are left out.
\<close>

definition updateRelease ::
  "'s Storage \<Rightarrow> nat \<Rightarrow> addr \<Rightarrow> string \<Rightarrow> 's config \<Rightarrow> update_error option \<times> 's config" where
  "updateRelease storage now origRelease modifiedManifest cfg =
     (let cfg1 = assign origRelease (setStatus StatusSuperseded) cfg;
          (err, d1) = Update storage (driver cfg1) (releases cfg1 origRelease);
          cfg2 = cfg1\<lparr>driver := d1, calls := calls cfg1 @ [CallUpdate (releases cfg1 origRelease)]\<rparr>
      in case err of
           Some e \<Rightarrow> (Some (UpdateFailed e), cfg2)
         | None \<Rightarrow>
             let newRelease = origRelease;
                 cfg3 = assign newRelease (\<lambda>r. r\<lparr>Manifest := modifiedManifest\<rparr>) cfg2;
                 cfg4 = assign newRelease (setDescription UpgradeDescription) cfg3;
                 cfg5 = assign newRelease (setLastDeployed now) cfg4;
                 cfg6 = assign newRelease
                          (\<lambda>r. r\<lparr>RelVersion := RelVersion (releases cfg5 origRelease) + 1\<rparr>) cfg5;
                 cfg7 = assign newRelease (setStatus StatusDeployed) cfg6;
                 (err', d2) = Create storage (driver cfg7) (releases cfg7 newRelease);
                 cfg8 = cfg7\<lparr>driver := d2,
                             calls := calls cfg7 @ [CallCreate (releases cfg7 newRelease)]\<rparr>
             in (case err' of
                   Some e \<Rightarrow> (Some (CreateFailed e), cfg8)
                 | None \<Rightarrow> (None, cfg8)))"

section \<open>The orchestrator\<close>

datatype run_error =
    ActionConfigFailed string
  | LatestReleaseFailed string
  | UnmarshalFailed decode_error
  | ReplaceFailed error
  | EncodeFailed string
  | UpdateReleaseFailed update_error

text \<open>
  The Go function returns nil on three paths, told apart by what they log: the release
  has no deprecated or removed APIs, they exist and the run is a dry run, they exist and
  the release was updated.
\<close>

datatype outcome = NoDeprecatedAPIs | DryRunFound | ReleaseUpdated | Failed run_error

text \<open>
  What the collaborators answer: the Helm configuration (its error, if any), the latest
  release (a pointer), the YAML decoder and encoder, the mapping file, the version of the
  cluster, the storage and its clock.
\<close>

record ('d, 'e, 's) environment =
  GetActionConfig :: "string option"
  Last :: "string + addr"
  NewDecoder :: "string \<Rightarrow> 'd"
  Decode :: "'d Decoder"
  LoadMapfile :: "string + Mapping list"
  ServerVersion :: "error + string"
  YamlEncoder :: "'e Encoder"
  Releases :: "'s Storage"
  Now :: nat

text \<open>The documents a slice denotes: the maps its cells point to, in order.\<close>

definition documentsOf :: "store \<Rightarrow> slice \<Rightarrow> document list" where
  "documentsOf st s = map (maps st) (take (len s) (arrays st (ptr s)))"

definition MapReleaseWithUnSupportedAPIs ::
  "('d, 'e, 's) environment \<Rightarrow> bool \<Rightarrow> 's config \<Rightarrow> (outcome \<times> 's config) option" where
  "MapReleaseWithUnSupportedAPIs env DryRun cfg =
     (case GetActionConfig env of
        Some e \<Rightarrow> Some (Failed (ActionConfigFailed e), cfg)
      | None \<Rightarrow>
     (case Last env of
        Inl e \<Rightarrow> Some (Failed (LatestReleaseFailed e), cfg)
      | Inr releaseToMap \<Rightarrow>
     (case decodeManifests (NewDecoder env) (Decode env) (Manifest (releases cfg releaseToMap)) of
        None \<Rightarrow> None
      | Some (Inl e) \<Rightarrow> Some (Failed (UnmarshalFailed e), cfg)
      | Some (Inr docs) \<Rightarrow>
     (case allocManifests docs of
        (st, origManifest) \<Rightarrow>
     (case ReplaceManifestUnSupportedAPIs (LoadMapfile env) (ServerVersion env) st origManifest of
        Inl e \<Rightarrow> Some (Failed (ReplaceFailed e), cfg)
      | Inr (st', modifiedManifest) \<Rightarrow>
          if DeepEqual st' modifiedManifest origManifest then Some (NoDeprecatedAPIs, cfg)
          else if DryRun then Some (DryRunFound, cfg)
          else
            (case encodeManifests (YamlEncoder env) (documentsOf st' modifiedManifest) of
               Inl e \<Rightarrow> Some (Failed (EncodeFailed e), cfg)
             | Inr newManifest \<Rightarrow>
                 (case updateRelease (Releases env) (Now env) releaseToMap newManifest cfg of
                    (Some e, cfg') \<Rightarrow> Some (Failed (UpdateReleaseFailed e), cfg')
                  | (None, cfg') \<Rightarrow> Some (ReleaseUpdated, cfg'))))))))"

section \<open>Concrete inputs\<close>

text \<open>Manifest documents, rules and collaborators used to run the model on examples.\<close>

definition resource :: "string \<Rightarrow> string \<Rightarrow> string \<Rightarrow> document" where
  "resource apiVersion kind name =
     [''apiVersion'' \<mapsto> YString apiVersion, ''kind'' \<mapsto> YString kind,
      ''metadata'' \<mapsto> YMap [(''name'', YString name)]]"


definition deploymentRule :: Mapping where
  "deploymentRule =
     \<lparr>DeprecatedAPI = \<lparr>Group = ''extensions'', Version = ''v1beta1'', Kind = ''Deployment''\<rparr>,
      NewAPI = \<lparr>Group = ''apps'', Version = ''v1'', Kind = ''Deployment''\<rparr>,
      DeprecatedInVersion = ''v1.16'', RemovedInVersion = []\<rparr>"


definition pspRemoval :: Mapping where
  "pspRemoval =
     \<lparr>DeprecatedAPI = \<lparr>Group = ''policy'', Version = ''v1beta1'', Kind = ''PodSecurityPolicy''\<rparr>,
      NewAPI = \<lparr>Group = [], Version = [], Kind = []\<rparr>,
      DeprecatedInVersion = [], RemovedInVersion = ''v1.25''\<rparr>"


text \<open>A decoder that answers from a list of outcomes, then end of stream.\<close>

fun listDecode :: "(document option \<times> decode_error option) list Decoder" where
  "listDecode [] = ((None, Some EOF), [])"
| "listDecode (x # xs) = (x, xs)"

text \<open>
  Modelled from the spec: the YAML library is not part of the source. What follows is a
  codec for the documents of \<open>resource\<close> whose three strings are not empty and fit on a
  line, written as four lines of block YAML.
\<close>

definition newline :: char where
  "newline = CHR 0x0A"

definition separator :: string where
  "separator = ''---'' @ [newline]"

definition plain :: "string \<Rightarrow> bool" where
  "plain s = (s \<noteq> [] \<and> newline \<notin> set s)"

definition renderResource :: "string \<Rightarrow> string \<Rightarrow> string \<Rightarrow> string" where
  "renderResource apiVersion kind name =
     ''apiVersion: '' @ apiVersion @ [newline] @ ''kind: '' @ kind @ [newline]
       @ ''metadata:'' @ [newline] @ ''  name: '' @ name @ [newline]"

definition stringOf :: "yvalue option \<Rightarrow> string" where
  "stringOf v = (case v of Some (YString s) \<Rightarrow> s | _ \<Rightarrow> [])"

definition nameOf :: "yvalue option \<Rightarrow> string" where
  "nameOf v = (case v of Some (YMap [(k, YString n)]) \<Rightarrow> n | _ \<Rightarrow> [])"

definition marshalResource :: "document \<Rightarrow> string + string" where
  "marshalResource d =
     (let apiVersion = stringOf (d ''apiVersion''); kind = stringOf (d ''kind'');
          name = nameOf (d ''metadata'')
      in if d = resource apiVersion kind name \<and> plain apiVersion \<and> plain kind \<and> plain name
         then Inr (renderResource apiVersion kind name)
         else Inl ''yaml: unsupported document'')"

text \<open>
  The encoder keeps whether a document has been written and the bytes written so far. It
  starts the stream at the first \<^verbatim>\<open>Encode\<close>, writes the separator before the second and
  every later document, and its \<^verbatim>\<open>Close\<close> ends the stream, which is an error when the
  stream was never started: gopkg.in/yaml.v3 reports \<^verbatim>\<open>yaml: expected STREAM-START\<close>.
\<close>

definition yamlEncoder :: "(document \<Rightarrow> string + string) \<Rightarrow> (bool \<times> string) Encoder" where
  "yamlEncoder marshal =
     \<lparr>NewEncoder = (False, []),
      Encode = (\<lambda>(started, out) d.
         case marshal d of
           Inl err \<Rightarrow> (Some err, (started, out))
         | Inr text \<Rightarrow> (None, (True, out @ (if started then separator else []) @ text))),
      Close = (\<lambda>(started, out).
         (if started then None else Some ''yaml: expected STREAM-START'', (started, out))),
      Bytes = snd\<rparr>"









text \<open>
  A storage kept in memory: the stored records; an update needs the version stored, a
  create needs it absent.
\<close>

definition stored :: "Release list \<Rightarrow> Release \<Rightarrow> bool" where
  "stored s r = (\<exists>x \<in> set s. Name x = Name r \<and> RelVersion x = RelVersion r)"

definition memStorage :: "Release list Storage" where
  "memStorage =
     \<lparr>Update = (\<lambda>s r. if stored s r
                       then (None, map (\<lambda>x. if Name x = Name r \<and> RelVersion x = RelVersion r
                                            then r else x) s)
                       else (Some ''release: not found'', s)),
      Create = (\<lambda>s r. if stored s r then (Some ''release: already exists'', s)
                       else (None, s @ [r]))\<rparr>"

definition release1 :: "string \<Rightarrow> Release" where
  "release1 m =
     \<lparr>Name = ''web'', Namespace = ''default'',
      Info = \<lparr>Status = StatusDeployed, Description = ''Install complete'', LastDeployed = 5\<rparr>,
      Manifest = m, RelVersion = 1\<rparr>"

definition config1 :: "Release list \<Rightarrow> Release list config" where
  "config1 s = \<lparr>releases = (\<lambda>_. release1 ''old''), driver = s, calls = []\<rparr>"

text \<open>
  The documents \<^verbatim>\<open>ReplaceManifestUnSupportedAPIs\<close> returns for freshly decoded documents,
  a loaded rule list and a cluster version.
\<close>

definition mapManifests :: "Mapping list \<Rightarrow> string \<Rightarrow> document list \<Rightarrow> error + document list" where
  "mapManifests ms kubeVersionStr ds =
     (case allocManifests ds of
        (st, origManifest) \<Rightarrow>
          (case ReplaceManifestUnSupportedAPIs (Inr ms) (Inr kubeVersionStr) st origManifest of
             Inl e \<Rightarrow> Inl e
           | Inr (st', modifiedManifest) \<Rightarrow> Inr (documentsOf st' modifiedManifest)))"

text \<open>
  A run of the orchestrator: the release \<open>web\<close>, version 1, whose manifest decodes to one
  deployment of \<^verbatim>\<open>extensions/v1beta1\<close>; the mapping file holds the rule that rewrites it to
  \<^verbatim>\<open>apps/v1\<close>; the cluster is at v1.18.0.
\<close>

definition env1 ::
  "((document option \<times> decode_error option) list, bool \<times> string, Release list) environment" where
  "env1 =
     \<lparr>GetActionConfig = None, Last = Inr 0,
      NewDecoder = (\<lambda>text. [(Some (resource ''extensions/v1beta1'' ''Deployment'' ''web''), None)]),
      Decode = listDecode,
      LoadMapfile = Inr [deploymentRule], ServerVersion = Inr ''v1.18.0'',
      YamlEncoder = yamlEncoder marshalResource, Releases = memStorage, Now = 9\<rparr>"

text \<open>
  A second run: the manifest decodes to a pod security policy of \<^verbatim>\<open>policy/v1beta1\<close> and a
  service; the mapping file holds the rule that removes such policies; the cluster is at
  v1.25.0.
\<close>

definition env2 ::
  "((document option \<times> decode_error option) list, bool \<times> string, Release list) environment" where
  "env2 =
     \<lparr>GetActionConfig = None, Last = Inr 0,
      NewDecoder = (\<lambda>text. [(Some (resource ''policy/v1beta1'' ''PodSecurityPolicy'' ''restricted''), None),
                             (Some (resource ''v1'' ''Service'' ''web''), None)]),
      Decode = listDecode,
      LoadMapfile = Inr [pspRemoval], ServerVersion = Inr ''v1.25.0'',
      YamlEncoder = yamlEncoder marshalResource, Releases = memStorage, Now = 9\<rparr>"

text \<open>The decoder loop on a finite list of outcomes, by recursion on the list.\<close>

fun decodeAll ::
  "(document option \<times> decode_error option) list \<Rightarrow> document list
     \<Rightarrow> decode_error + document list" where
  "decodeAll [] manifests = Inr manifests"
| "decodeAll ((value, err) # rest) manifests =
     (if err = Some EOF then Inr manifests
      else if value = None \<or> value = Some Map.empty then decodeAll rest manifests
      else (case err of
              Some e \<Rightarrow> Inl e
            | None \<Rightarrow> decodeAll rest (manifests @ [the value])))"




section \<open>What one rule does to one document\<close>

text \<open>
  Auxiliary functions for the proofs about rewrite rules: the effect of one round of
  the rule loop, and of all rounds, on a single document of the sequence.
\<close>

definition isRewrite :: "Mapping \<Rightarrow> bool" where
  "isRewrite m = (Kind (NewAPI m) \<noteq> [] \<and> Group (NewAPI m) \<noteq> [])"

definition hits :: "string \<Rightarrow> Mapping \<Rightarrow> document \<Rightarrow> bool" where
  "hits kubeVersionStr m d =
     (semver_Compare (threshold m) kubeVersionStr \<le> 0
      \<and> matches d (apiVersionOf (DeprecatedAPI m)) (Kind (DeprecatedAPI m)))"

definition stepDoc :: "string \<Rightarrow> Mapping \<Rightarrow> document \<Rightarrow> document" where
  "stepDoc kubeVersionStr m d =
     (if hits kubeVersionStr m d
      then d(ApiVersionFieldName \<mapsto> YString (apiVersionOf (NewAPI m))) else d)"






section \<open>Lemmas\<close>

declare removeLoop.simps [simp del]

lemma semver_Compare_pos_valid: "semver_Compare v w > 0 \<Longrightarrow> semver_IsValid v"
  by (auto simp: semver_Compare_def semver_IsValid_def split: option.splits)

lemma semver_examples:
  "semver_IsValid ''v1.14.0''" "semver_IsValid ''v1.18.0''" "semver_IsValid ''v1.25.0''"
  "semver_IsValid ''v1.16''" "semver_IsValid ''v1.25''" "semver_IsValid ''v1.19''"
  "semver_Compare ''v1.16'' ''v1.14.0'' = 1"
  "semver_Compare ''v1.16'' ''v1.18.0'' = -1"
  "semver_Compare ''v1.16'' ''v1.25.0'' = -1"
  "semver_Compare ''v1.25'' ''v1.25.0'' = 0"
  "semver_Compare ''v1.19'' ''v1.25.0'' = -1"
  by code_simp+

lemma resource_fields:
  "resource av k n ApiVersionFieldName = Some (YString av)"
  "resource av k n KindFieldName = Some (YString k)"
  by (simp_all add: resource_def ApiVersionFieldName_def KindFieldName_def)

lemma resource_rewritten:
  "(resource av k n)(ApiVersionFieldName \<mapsto> YString av') = resource av' k n"
  by (auto simp: resource_def ApiVersionFieldName_def fun_eq_iff)

lemmas run_defs =
  mapManifests_def allocManifests_def ReplaceManifestUnSupportedAPIs_def applyMapping_def
  mapDocuments_def threshold_def apiVersionOf_def removeLoop.simps removeAt_def matches_def
  documentsOf_def Let_def resource_fields resource_rewritten semver_examples

subsection \<open>The loops\<close>

lemma removeAt_frame:
  "removeAt st s i = Inr (st', s') \<Longrightarrow>
     ptr s' = ptr s \<and> maps st' = maps st \<and> Suc (len s') = len s"
  by (auto simp: removeAt_def Let_def split: if_splits)

lemma removeLoop_frame:
  "removeLoop av k n i st s = Inr (st', s') \<Longrightarrow>
     ptr s' = ptr s \<and> maps st' = maps st \<and> len s' \<le> len s"
proof (induction av k n i st s rule: removeLoop.induct)
  case (1 av k n i st s)
  show ?case
  proof (cases "i < n \<and> i < length (arrays st (ptr s))
                \<and> matches (maps st (arrays st (ptr s) ! i)) av k")
    case True
    with "1.prems" obtain st1 s1 where r: "removeAt st s i = Inr (st1, s1)"
      and l: "removeLoop av k n (i + 1) st1 s1 = Inr (st', s')"
      by (subst (asm) removeLoop.simps) (auto split: sum.splits)
    from True r l "1.IH"(1) have "ptr s' = ptr s1 \<and> maps st' = maps st1 \<and> len s' \<le> len s1"
      by simp
    with removeAt_frame [OF r] show ?thesis by simp
  next
    case False
    show ?thesis
    proof (cases "i < n")
      case True
      with False "1.prems" have l: "removeLoop av k n (i + 1) st s = Inr (st', s')"
        and "i < length (arrays st (ptr s))" "\<not> matches (maps st (arrays st (ptr s) ! i)) av k"
        by (subst (asm) removeLoop.simps; auto split: if_splits)+
      with True "1.IH"(2) show ?thesis by simp
    next
      case False
      with "1.prems" show ?thesis by (subst (asm) removeLoop.simps) simp
    qed
  qed
qed

lemma rewriteLoop_apply:
  "rewriteLoop av k nav refs h a =
     (if a \<in> set refs \<and> matches (h a) av k
      then (h a)(ApiVersionFieldName \<mapsto> YString nav) else h a)"
proof (induction refs arbitrary: h)
  case Nil
  show ?case by simp
next
  case (Cons r refs)
  show ?case
    by (simp add: Cons.IH) (auto simp: matches_def)
qed

subsection \<open>What the removal loop does keep\<close>







subsection \<open>The transition in closed form\<close>

lemma updateRelease_closed_form:
  "updateRelease storage now p m cfg =
     (case Update storage (driver cfg) (setStatus StatusSuperseded (releases cfg p)) of
        (Some e, d1) \<Rightarrow>
          (Some (UpdateFailed e),
           cfg\<lparr>releases := (releases cfg)(p := setStatus StatusSuperseded (releases cfg p)),
               driver := d1,
               calls := calls cfg @ [CallUpdate (setStatus StatusSuperseded (releases cfg p))]\<rparr>)
      | (None, d1) \<Rightarrow>
          (map_option CreateFailed
             (fst (Create storage d1
                ((releases cfg p)
                   \<lparr>Manifest := m, RelVersion := RelVersion (releases cfg p) + 1,
                    Info := (Info (releases cfg p))
                      \<lparr>Description := UpgradeDescription, LastDeployed := now,
                       Status := StatusDeployed\<rparr>\<rparr>))),
           cfg\<lparr>releases := (releases cfg)(p := (releases cfg p)
                   \<lparr>Manifest := m, RelVersion := RelVersion (releases cfg p) + 1,
                    Info := (Info (releases cfg p))
                      \<lparr>Description := UpgradeDescription, LastDeployed := now,
                       Status := StatusDeployed\<rparr>\<rparr>),
               driver := snd (Create storage d1
                ((releases cfg p)
                   \<lparr>Manifest := m, RelVersion := RelVersion (releases cfg p) + 1,
                    Info := (Info (releases cfg p))
                      \<lparr>Description := UpgradeDescription, LastDeployed := now,
                       Status := StatusDeployed\<rparr>\<rparr>)),
               calls := calls cfg @
                 [CallUpdate (setStatus StatusSuperseded (releases cfg p)),
                  CallCreate ((releases cfg p)
                   \<lparr>Manifest := m, RelVersion := RelVersion (releases cfg p) + 1,
                    Info := (Info (releases cfg p))
                      \<lparr>Description := UpgradeDescription, LastDeployed := now,
                       Status := StatusDeployed\<rparr>\<rparr>)]\<rparr>))"
  by (simp add: updateRelease_def assign_def Let_def setStatus_def setDescription_def
      setLastDeployed_def split: prod.splits option.splits)

lemma memStorage_run:
  "Update memStorage [] (setStatus StatusSuperseded (release1 ''old'')) = (Some ''release: not found'', [])"
  "Update memStorage [release1 ''old''] (setStatus StatusSuperseded (release1 ''old''))
     = (None, [setStatus StatusSuperseded (release1 ''old'')])"
  by (simp_all add: memStorage_def stored_def release1_def setStatus_def)

lemma memStorage_run2:
  "Update memStorage [release1 ''old'', (release1 ''other'')\<lparr>RelVersion := 2\<rparr>]
       (setStatus StatusSuperseded (release1 ''old''))
     = (None, [setStatus StatusSuperseded (release1 ''old''), (release1 ''other'')\<lparr>RelVersion := 2\<rparr>])"
  "fst (Create memStorage [setStatus StatusSuperseded (release1 ''old''),
                      (release1 ''other'')\<lparr>RelVersion := 2\<rparr>]
       ((release1 ''old'')\<lparr>Manifest := ''new'', RelVersion := 2,
          Info := \<lparr>Status = StatusDeployed, Description = UpgradeDescription, LastDeployed = 9\<rparr>\<rparr>))
     = Some ''release: already exists''"
  by (simp_all add: memStorage_def stored_def release1_def setStatus_def)

subsection \<open>Rounds of the rule loop\<close>

lemma rewriteLoop_eq:
  "rewriteLoop av k nav refs h =
     (\<lambda>a. if a \<in> set refs \<and> matches (h a) av k
          then (h a)(ApiVersionFieldName \<mapsto> YString nav) else h a)"
  by (rule ext) (rule rewriteLoop_apply)

lemma mapDocuments_rewrite:
  "isRewrite m \<Longrightarrow>
   mapDocuments m st s =
     Inr (st\<lparr>maps := \<lambda>a. if a \<in> set (take (len s) (arrays st (ptr s)))
                              \<and> matches (maps st a) (apiVersionOf (DeprecatedAPI m))
                                   (Kind (DeprecatedAPI m))
                           then (maps st a)(ApiVersionFieldName \<mapsto>
                                   YString (apiVersionOf (NewAPI m)))
                           else maps st a\<rparr>, s)"
  by (simp add: mapDocuments_def isRewrite_def Let_def rewriteLoop_eq)

lemma mapDocuments_remove:
  "\<not> isRewrite m \<Longrightarrow> mapDocuments m st s = Inr (st', s') \<Longrightarrow>
     ptr s' = ptr s \<and> maps st' = maps st \<and> len s' \<le> len s"
  by (auto simp: mapDocuments_def isRewrite_def Let_def dest: removeLoop_frame)

lemma applyMapping_rewrite:
  assumes "isRewrite m" and "applyMapping kubeVersionStr m st s = Inr (st', s')"
  shows "s' = s \<and> arrays st' = arrays st
         \<and> maps st' = (\<lambda>a. if a \<in> set (take (len s) (arrays st (ptr s)))
                            then stepDoc kubeVersionStr m (maps st a) else maps st a)"
proof (cases "semver_Compare (threshold m) kubeVersionStr > 0")
  case True
  with assms(2) have "st' = st" "s' = s"
    by (auto simp: applyMapping_def Let_def split: if_splits)
  with True show ?thesis
    by (auto simp: stepDoc_def hits_def)
next
  case False
  with assms(2) have "mapDocuments m st s = Inr (st', s')"
    by (auto simp: applyMapping_def Let_def split: if_splits)
  with mapDocuments_rewrite [OF assms(1), of st s] False show ?thesis
    by (auto simp: stepDoc_def hits_def fun_eq_iff)
qed

lemma applyMapping_frame:
  "applyMapping kubeVersionStr m st s = Inr (st', s') \<Longrightarrow> ptr s' = ptr s \<and> len s' \<le> len s"
proof (cases "isRewrite m")
  case True
  assume "applyMapping kubeVersionStr m st s = Inr (st', s')"
  with applyMapping_rewrite [OF True this] show ?thesis by simp
next
  case False
  assume "applyMapping kubeVersionStr m st s = Inr (st', s')"
  with False show ?thesis
    by (auto simp: applyMapping_def Let_def split: if_splits dest: mapDocuments_remove)
qed

lemma applyMappings_frame:
  "applyMappings kubeVersionStr ms st s = Inr (st', s') \<Longrightarrow> ptr s' = ptr s \<and> len s' \<le> len s"
proof (induction ms arbitrary: st s)
  case Nil
  then show ?case by simp
next
  case (Cons m ms)
  from Cons.prems obtain st1 s1 where
    a: "applyMapping kubeVersionStr m st s = Inr (st1, s1)" and
    b: "applyMappings kubeVersionStr ms st1 s1 = Inr (st', s')"
    by (auto split: sum.splits)
  from applyMapping_frame [OF a] Cons.IH [OF b] show ?case by simp
qed

text \<open>
  The change detector is called with the result slice and the original header. They
  always share the backing array, so it reports a change exactly when a document was
  dropped from the slice; a rewrite alone is never reported.
\<close>

lemma DeepEqual_after_mapping:
  assumes "ReplaceManifestUnSupportedAPIs loadMapfile serverVersion st origManifest
             = Inr (st', modifiedManifest)"
  shows "DeepEqual st' modifiedManifest origManifest \<longleftrightarrow> len modifiedManifest = len origManifest"
proof -
  from assms obtain ms kv where "applyMappings kv ms st origManifest = Inr (st', modifiedManifest)"
    by (auto simp: ReplaceManifestUnSupportedAPIs_def split: sum.splits if_splits)
  from applyMappings_frame [OF this] show ?thesis
    by (simp add: DeepEqual_def)
qed




subsection \<open>One document under a list of rewrite rules\<close>







subsection \<open>Rounds that remove\<close>




subsection \<open>The decoder loop\<close>

text \<open>On a decoder that reaches the end of its stream the loop returns.\<close>

lemma decodeLoop_listDecode:
  "decodeLoop listDecode outcomes manifests = Some (decodeAll outcomes manifests)"
proof (induction outcomes manifests rule: decodeAll.induct)
  case (1 manifests)
  show ?case by (subst decodeLoop.simps) simp
next
  case (2 "value" err rest manifests)
  then show ?case by (subst decodeLoop.simps) (auto split: option.splits)
qed

text \<open>
  On a decoder that answers every call with the same error and stores nothing, the loop
  never returns.
\<close>

lemma decodeLoop_sticky_error:
  "decodeLoop (\<lambda>d. ((None, Some (YamlError e)), d)) decoder manifests = None"
proof -
  have "D = (\<lambda>d. ((None, Some (YamlError e)), d)) \<longrightarrow> False"
    if run: "decodeLoop D d m = Some y" for D :: "'a Decoder" and d m y
    by (rule decodeLoop.raw_induct
          [where P = "\<lambda>D d m y. D = (\<lambda>d. ((None, Some (YamlError e)), d)) \<longrightarrow> False",
           OF _ run])
       (auto, blast)
  then show ?thesis
    by (cases "decodeLoop (\<lambda>d. ((None, Some (YamlError e)), d)) decoder manifests") auto
qed

lemma resource_nonempty: "resource av k n \<noteq> Map.empty"
  by (simp add: resource_def)

subsection \<open>The codec\<close>












lemma marshalResource_resource:
  "plain av \<Longrightarrow> plain k \<Longrightarrow> plain n \<Longrightarrow>
     marshalResource (resource av k n) = Inr (renderResource av k n)"
  by (simp add: marshalResource_def resource_def stringOf_def nameOf_def)













lemma plain_examples:
  "plain ''v1''" "plain ''Service''" "plain ''web''" "plain ''apps/v1''" "plain ''Deployment''"
  by (simp_all add: plain_def newline_def)

subsection \<open>A run that removes a document\<close>

text \<open>
  When a document is removed the lengths differ, the change is detected, and the
  orchestrator encodes the result and makes the transition.
\<close>

lemma removal_detected:
  "MapReleaseWithUnSupportedAPIs env2 False (config1 [release1 ''old''])
     = Some (ReleaseUpdated,
         \<lparr>releases = (\<lambda>_. release1 ''old'')
            (0 := \<lparr>Name = ''web'', Namespace = ''default'',
                    Info = \<lparr>Status = StatusDeployed, Description = UpgradeDescription,
                            LastDeployed = 9\<rparr>,
                    Manifest = separator @ renderResource ''v1'' ''Service'' ''web'', RelVersion = 2\<rparr>),
          driver =
            [setStatus StatusSuperseded (release1 ''old''),
             \<lparr>Name = ''web'', Namespace = ''default'',
               Info = \<lparr>Status = StatusDeployed, Description = UpgradeDescription,
                       LastDeployed = 9\<rparr>,
               Manifest = separator @ renderResource ''v1'' ''Service'' ''web'', RelVersion = 2\<rparr>],
          calls =
            [CallUpdate (setStatus StatusSuperseded (release1 ''old'')),
             CallCreate \<lparr>Name = ''web'', Namespace = ''default'',
               Info = \<lparr>Status = StatusDeployed, Description = UpgradeDescription,
                       LastDeployed = 9\<rparr>,
               Manifest = separator @ renderResource ''v1'' ''Service'' ''web'', RelVersion = 2\<rparr>]\<rparr>)"
proof -
  have man: "Manifest (releases (config1 [release1 ''old'']) 0) = ''old''"
    by (simp add: config1_def release1_def)
  show ?thesis
    unfolding MapReleaseWithUnSupportedAPIs_def
    apply (simp add: env2_def man decodeManifests_def decodeLoop_listDecode resource_nonempty)
    apply (simp add: run_defs pspRemoval_def DeepEqual_def)
    apply (simp add: env2_def encodeManifests_def yamlEncoder_def marshalResource_resource
        plain_examples separator_def newline_def updateRelease_closed_form
        config1_def memStorage_run)
    apply (simp add: memStorage_def stored_def release1_def setStatus_def)
    done
qed

section \<open>The claims\<close>

text \<open>
  C5. A rule whose threshold (\<^verbatim>\<open>DeprecatedInVersion\<close> if not empty, else
  \<^verbatim>\<open>RemovedInVersion\<close>) is strictly greater than the cluster version is skipped: the round
  returns the store and the slice as they are, with no error, whatever the documents are,
  and the loop goes on with the next rule. Otherwise a rule with a valid threshold is
  applied, and one with an invalid threshold is an error.
\<close>

theorem version_gate:
  "applyMapping kubeVersionStr m st s =
     (if semver_Compare (threshold m) kubeVersionStr > 0 then Inr (st, s)
      else if semver_IsValid (threshold m) then mapDocuments m st s
      else Inl (APIVersionInvalid (DeprecatedAPI m)))
   \<and> (semver_Compare (threshold m) kubeVersionStr > 0 \<longrightarrow>
        applyMappings kubeVersionStr (m # ms) st s = applyMappings kubeVersionStr ms st s)"
proof -
  have "applyMapping kubeVersionStr m st s =
     (if semver_Compare (threshold m) kubeVersionStr > 0 then Inr (st, s)
      else if semver_IsValid (threshold m) then mapDocuments m st s
      else Inl (APIVersionInvalid (DeprecatedAPI m)))"
    using semver_Compare_pos_valid [of "threshold m" kubeVersionStr]
    by (auto simp: applyMapping_def Let_def)
  then show ?thesis by simp
qed

text \<open>Scenario B: threshold v1.16, cluster v1.14.0; the deployment stays as it is.\<close>

theorem version_gate_witness:
  "semver_Compare (threshold deploymentRule) ''v1.14.0'' > 0
   \<and> applyMappings ''v1.14.0'' [deploymentRule]
        (fst (allocManifests [resource ''extensions/v1beta1'' ''Deployment'' ''web'']))
        (snd (allocManifests [resource ''extensions/v1beta1'' ''Deployment'' ''web'']))
      = Inr (allocManifests [resource ''extensions/v1beta1'' ''Deployment'' ''web''])"
proof -
  have gt: "semver_Compare (threshold deploymentRule) ''v1.14.0'' > 0"
    by (simp add: threshold_def deploymentRule_def semver_examples)
  with version_gate [of "''v1.14.0''" deploymentRule
      "fst (allocManifests [resource ''extensions/v1beta1'' ''Deployment'' ''web''])"
      "snd (allocManifests [resource ''extensions/v1beta1'' ''Deployment'' ''web''])" "[]"]
  have "applyMappings ''v1.14.0'' [deploymentRule]
        (fst (allocManifests [resource ''extensions/v1beta1'' ''Deployment'' ''web'']))
        (snd (allocManifests [resource ''extensions/v1beta1'' ''Deployment'' ''web'']))
      = applyMappings ''v1.14.0'' []
        (fst (allocManifests [resource ''extensions/v1beta1'' ''Deployment'' ''web'']))
        (snd (allocManifests [resource ''extensions/v1beta1'' ''Deployment'' ''web'']))"
    by blast
  with gt show ?thesis by simp
qed

text \<open>
  C7. The transition calls the update primitive first, with the old record marked
  superseded. If the update fails, the result is that error and the create primitive is
  not called. If it succeeds, the create primitive is called once, after the update, with
  the record of the new version, and its failure is the result; nothing is called after
  it.
\<close>

theorem updateRelease_calls:
  "updateRelease storage now origRelease modifiedManifest cfg = (r, cfg') \<Longrightarrow>
   (case Update storage (driver cfg) (setStatus StatusSuperseded (releases cfg origRelease)) of
      (Some e, d) \<Rightarrow>
        r = Some (UpdateFailed e) \<and> driver cfg' = d
        \<and> calls cfg' =
            calls cfg @ [CallUpdate (setStatus StatusSuperseded (releases cfg origRelease))]
    | (None, d) \<Rightarrow>
        calls cfg' =
          calls cfg @ [CallUpdate (setStatus StatusSuperseded (releases cfg origRelease)),
                       CallCreate (releases cfg' origRelease)]
        \<and> r = map_option CreateFailed (fst (Create storage d (releases cfg' origRelease)))
        \<and> driver cfg' = snd (Create storage d (releases cfg' origRelease)))"
  by (auto simp: updateRelease_closed_form split: prod.splits option.splits)

text \<open>
  Two runs: the storage does not hold the release, so the update fails and create is not
  called; the storage already holds version 2, so the update succeeds and the create
  fails.
\<close>

theorem updateRelease_calls_witness:
  "fst (updateRelease memStorage 9 0 ''new'' (config1 [])) = Some (UpdateFailed ''release: not found'')
   \<and> calls (snd (updateRelease memStorage 9 0 ''new'' (config1 [])))
       = [CallUpdate (setStatus StatusSuperseded (release1 ''old''))]
   \<and> driver (snd (updateRelease memStorage 9 0 ''new'' (config1 []))) = []
   \<and> fst (updateRelease memStorage 9 0 ''new''
            (config1 [release1 ''old'', (release1 ''other'')\<lparr>RelVersion := 2\<rparr>]))
       = Some (CreateFailed ''release: already exists'')
   \<and> calls (snd (updateRelease memStorage 9 0 ''new''
            (config1 [release1 ''old'', (release1 ''other'')\<lparr>RelVersion := 2\<rparr>])))
       = [CallUpdate (setStatus StatusSuperseded (release1 ''old'')),
          CallCreate ((release1 ''old'')\<lparr>Manifest := ''new'', RelVersion := 2,
             Info := \<lparr>Status = StatusDeployed, Description = UpgradeDescription,
                      LastDeployed = 9\<rparr>\<rparr>)]"
proof -
  let ?cfg = "config1 [release1 ''old'', (release1 ''other'')\<lparr>RelVersion := 2\<rparr>]"
  have new: "releases (snd (updateRelease memStorage 9 0 ''new'' ?cfg)) 0
     = (release1 ''old'')\<lparr>Manifest := ''new'', RelVersion := 2,
          Info := \<lparr>Status = StatusDeployed, Description = UpgradeDescription, LastDeployed = 9\<rparr>\<rparr>"
    by (simp add: updateRelease_closed_form config1_def memStorage_run2) (simp add: release1_def)
  have cfgd: "driver ?cfg = [release1 ''old'', (release1 ''other'')\<lparr>RelVersion := 2\<rparr>]"
    "calls ?cfg = []" "releases ?cfg 0 = release1 ''old''"
    by (simp_all add: config1_def)
  from updateRelease_calls [of memStorage 9 0 "''new''" "config1 []"
      "fst (updateRelease memStorage 9 0 ''new'' (config1 []))"
      "snd (updateRelease memStorage 9 0 ''new'' (config1 []))"]
  have a: "fst (updateRelease memStorage 9 0 ''new'' (config1 [])) = Some (UpdateFailed ''release: not found'')
   \<and> calls (snd (updateRelease memStorage 9 0 ''new'' (config1 [])))
       = [CallUpdate (setStatus StatusSuperseded (release1 ''old''))]
   \<and> driver (snd (updateRelease memStorage 9 0 ''new'' (config1 []))) = []"
    by (simp add: config1_def memStorage_run)
  from updateRelease_calls [of memStorage 9 0 "''new''" ?cfg
      "fst (updateRelease memStorage 9 0 ''new'' ?cfg)"
      "snd (updateRelease memStorage 9 0 ''new'' ?cfg)"]
  have b: "fst (updateRelease memStorage 9 0 ''new'' ?cfg)
       = Some (CreateFailed ''release: already exists'')
   \<and> calls (snd (updateRelease memStorage 9 0 ''new'' ?cfg))
       = [CallUpdate (setStatus StatusSuperseded (release1 ''old'')),
          CallCreate ((release1 ''old'')\<lparr>Manifest := ''new'', RelVersion := 2,
             Info := \<lparr>Status = StatusDeployed, Description = UpgradeDescription,
                      LastDeployed = 9\<rparr>\<rparr>)]"
    by (simp add: cfgd memStorage_run2 new)
  from a b show ?thesis by simp
qed

text \<open>
  C8, as stated, fails: after a successful transition of version 1 the record the old
  pointer refers to has version 2, the new manifest and status deployed.
\<close>

theorem old_record_overwritten:
  "fst (updateRelease memStorage 9 0 ''new'' (config1 [release1 ''old''])) = None
   \<and> RelVersion (releases (snd (updateRelease memStorage 9 0 ''new'' (config1 [release1 ''old'']))) 0) = 2
   \<and> Manifest (releases (snd (updateRelease memStorage 9 0 ''new'' (config1 [release1 ''old'']))) 0)
       = ''new''
   \<and> Status (Info (releases (snd (updateRelease memStorage 9 0 ''new'' (config1 [release1 ''old'']))) 0))
       = StatusDeployed"
  apply (simp add: updateRelease_closed_form config1_def memStorage_run)
  apply (simp add: memStorage_def stored_def release1_def setStatus_def)
  done

text \<open>
  C8, amended. The new record is the old record itself, reached through a copy of the
  pointer. The update primitive is passed the old record with only its status changed to
  superseded. When the update succeeds, the record the old pointer refers to ends with
  the new manifest, the upgrade description, the current time, the next version and
  status deployed, whether or not the create succeeds; when the update fails it is the old
  record marked superseded. No other record changes.
\<close>

theorem updateRelease_old_record:
  assumes "updateRelease storage now origRelease modifiedManifest cfg = (r, cfg')"
  shows "releases cfg' origRelease =
           (if fst (Update storage (driver cfg)
                      (setStatus StatusSuperseded (releases cfg origRelease))) = None
            then (releases cfg origRelease)
                   \<lparr>Info := (Info (releases cfg origRelease))
                      \<lparr>Status := StatusDeployed, Description := UpgradeDescription,
                       LastDeployed := now\<rparr>,
                    Manifest := modifiedManifest,
                    RelVersion := RelVersion (releases cfg origRelease) + 1\<rparr>
            else setStatus StatusSuperseded (releases cfg origRelease))
         \<and> hd (drop (length (calls cfg)) (calls cfg'))
             = CallUpdate ((releases cfg origRelease)
                 \<lparr>Info := (Info (releases cfg origRelease))\<lparr>Status := StatusSuperseded\<rparr>\<rparr>)
         \<and> (\<forall>p. p \<noteq> origRelease \<longrightarrow> releases cfg' p = releases cfg p)"
  using assms
  by (auto simp: updateRelease_closed_form setStatus_def split: prod.splits option.splits)

theorem updateRelease_old_record_witness:
  "releases (snd (updateRelease memStorage 9 0 ''new'' (config1 [release1 ''old'']))) 0
     = \<lparr>Name = ''web'', Namespace = ''default'',
        Info = \<lparr>Status = StatusDeployed, Description = UpgradeDescription, LastDeployed = 9\<rparr>,
        Manifest = ''new'', RelVersion = 2\<rparr>
   \<and> releases (snd (updateRelease memStorage 9 0 ''new'' (config1 [release1 ''old'']))) 1
     = release1 ''old''"
  using updateRelease_old_record [of memStorage 9 0 "''new''" "config1 [release1 ''old'']"
      "fst (updateRelease memStorage 9 0 ''new'' (config1 [release1 ''old'']))"
      "snd (updateRelease memStorage 9 0 ''new'' (config1 [release1 ''old'']))"]
  by (simp add: config1_def memStorage_run) (simp add: release1_def)










text \<open>
  C2 describes what the removal should do; the loop does not do it. Of two adjacent
  matching documents followed by another document, the second one survives: removing
  the first moves it to the cell the loop has just left. When the two matching documents
  are the last ones, the loop reads the stale last cell, finds a match at an index beyond
  the shortened slice, and the slice expression panics. Separated matches (Scenario C of
  the spec) are removed as intended.
\<close>

theorem adjacent_match_survives:
  "mapManifests [pspRemoval] ''v1.25.0''
     [resource ''policy/v1beta1'' ''PodSecurityPolicy'' ''privileged'',
      resource ''policy/v1beta1'' ''PodSecurityPolicy'' ''restricted'',
      resource ''v1'' ''Service'' ''web'']
     = Inr [resource ''policy/v1beta1'' ''PodSecurityPolicy'' ''restricted'',
            resource ''v1'' ''Service'' ''web'']
   \<and> mapManifests [pspRemoval] ''v1.25.0''
     [resource ''policy/v1beta1'' ''PodSecurityPolicy'' ''privileged'',
      resource ''policy/v1beta1'' ''PodSecurityPolicy'' ''restricted'']
     = Inl SliceBoundsPanic"
  by (simp add: run_defs pspRemoval_def)

lemma scenarioC:
  "mapManifests [pspRemoval] ''v1.25.0''
     [resource ''v1'' ''Service'' ''a'',
      resource ''policy/v1beta1'' ''PodSecurityPolicy'' ''privileged'',
      resource ''v1'' ''Service'' ''b'',
      resource ''policy/v1beta1'' ''PodSecurityPolicy'' ''restricted'',
      resource ''v1'' ''Service'' ''c'']
     = Inr [resource ''v1'' ''Service'' ''a'', resource ''v1'' ''Service'' ''b'',
            resource ''v1'' ''Service'' ''c'']"
  by (simp add: run_defs pspRemoval_def)

text \<open>
  C6 describes what the decoder loop should do with a failing document; the loop tests
  for an empty value before it tests the error. A document that fails to decode and
  leaves the value nil is dropped without an error, and the documents after it are
  returned.
\<close>

theorem decode_error_dropped:
  "decodeManifests
     (\<lambda>text. [(None, Some (YamlError ''yaml: unmarshal errors'')),
               (Some (resource ''v1'' ''Service'' ''web''), None)])
     listDecode ''manifest''
   = Some (Inr [resource ''v1'' ''Service'' ''web''])"
  by (simp add: decodeManifests_def decodeLoop.simps resource_def)

text \<open>
  C1 describes what the change detector should report; the detector compares the result
  with the original header, which shares its backing array and its maps with the result.
  The run rewrites the deployment to \<^verbatim>\<open>apps/v1\<close>, the comparison finds no
  difference, and the orchestrator stops on the path of a release without deprecated
  APIs: no call reaches the storage.
\<close>

theorem rewrite_not_detected:
  "mapManifests [deploymentRule] ''v1.18.0'' [resource ''extensions/v1beta1'' ''Deployment'' ''web'']
     = Inr [resource ''apps/v1'' ''Deployment'' ''web'']
   \<and> MapReleaseWithUnSupportedAPIs env1 False (config1 [release1 ''old''])
     = Some (NoDeprecatedAPIs, config1 [release1 ''old''])"
proof -
  have "decodeManifests (NewDecoder env1) (Decode env1) ''old''
          = Some (Inr [resource ''extensions/v1beta1'' ''Deployment'' ''web''])"
    by (simp add: decodeManifests_def decodeLoop.simps env1_def resource_def)
  moreover have "Manifest (releases (config1 [release1 ''old'']) 0) = ''old''"
    by (simp add: config1_def release1_def)
  moreover have "\<exists>st'. ReplaceManifestUnSupportedAPIs (Inr [deploymentRule]) (Inr ''v1.18.0'')
      (fst (allocManifests [resource ''extensions/v1beta1'' ''Deployment'' ''web'']))
      (snd (allocManifests [resource ''extensions/v1beta1'' ''Deployment'' ''web'']))
      = Inr (st', snd (allocManifests [resource ''extensions/v1beta1'' ''Deployment'' ''web'']))"
    by (simp add: run_defs deploymentRule_def)
  ultimately have "MapReleaseWithUnSupportedAPIs env1 False (config1 [release1 ''old''])
     = Some (NoDeprecatedAPIs, config1 [release1 ''old''])"
    by (auto simp: MapReleaseWithUnSupportedAPIs_def env1_def DeepEqual_def split: prod.splits)
  moreover have "mapManifests [deploymentRule] ''v1.18.0''
       [resource ''extensions/v1beta1'' ''Deployment'' ''web'']
     = Inr [resource ''apps/v1'' ''Deployment'' ''web'']"
    by (simp add: run_defs deploymentRule_def)
  ultimately show ?thesis by simp
qed




end
